theory Spec2Isabelle
  imports Complex_Main "HOL-Library.Sublist"
begin

section \<open>Python values and errors\<close>

text \<open>
  The fields of an activity and the entries of a persisted record are dynamically typed:
  \<open>from_dict\<close> stores whatever the mapping holds. A value is one of the kinds that
  \<open>json.load\<close> can return. A \<open>str\<close> is a list of code points below 256 (ASCII and
  Latin-1); a \<open>float\<close> is idealised as a real number; a \<open>dict\<close> with string keys is
  the list of its items in insertion order, looked up with \<open>map_of\<close>.
\<close>

datatype pyval =
    PNone
  | PBool bool
  | PInt int
  | PFloat real
  | PStr string
  | PList "pyval list"
  | PDict "(string \<times> pyval) list"

datatype error =
    KeyError string
  | TypeError
  | JSONDecodeError
  | AttributeError
  | ValueError
  | OverflowError

text \<open>Truth value testing, as \<open>x if date else y\<close> applies it.\<close>

fun truthy :: "pyval \<Rightarrow> bool" where
  "truthy PNone = False"
| "truthy (PBool b) = b"
| "truthy (PInt i) = (i \<noteq> 0)"
| "truthy (PFloat r) = (r \<noteq> 0)"
| "truthy (PStr s) = (s \<noteq> [])"
| "truthy (PList xs) = (xs \<noteq> [])"
| "truthy (PDict kvs) = (kvs \<noteq> [])"

section \<open>Calendar dates\<close>

text \<open>
  A naive \<open>datetime\<close>: the proleptic Gregorian ordinal of its day (day 1 is 0001-01-01)
  and the microseconds since midnight. Python compares naive datetimes field by field,
  which is the lexicographic order on these two components.
\<close>

record datetime =
  dt_day :: int
  dt_us :: nat

definition dt_le :: "datetime \<Rightarrow> datetime \<Rightarrow> bool" where
  "dt_le a b = (dt_day a < dt_day b \<or> (dt_day a = dt_day b \<and> dt_us a \<le> dt_us b))"

definition is_leap :: "int \<Rightarrow> bool" where
  "is_leap y = (y mod 4 = 0 \<and> (y mod 100 \<noteq> 0 \<or> y mod 400 = 0))"

definition days_in_month :: "int \<Rightarrow> int \<Rightarrow> int" where
  "days_in_month y m =
     (if m = 2 then (if is_leap y then 29 else 28)
      else if m = 4 \<or> m = 6 \<or> m = 9 \<or> m = 11 then 30 else 31)"

definition days_before_year :: "int \<Rightarrow> int" where
  "days_before_year y = (y - 1) * 365 + (y - 1) div 4 - (y - 1) div 100 + (y - 1) div 400"

definition days_before_month_tab :: "int list" where
  "days_before_month_tab = [0, 31, 59, 90, 120, 151, 181, 212, 243, 273, 304, 334]"

definition days_before_month :: "int \<Rightarrow> int \<Rightarrow> int" where
  "days_before_month y m =
     days_before_month_tab ! nat (m - 1) + (if 2 < m \<and> is_leap y then 1 else 0)"

definition ymd2ord :: "int \<Rightarrow> int \<Rightarrow> int \<Rightarrow> int" where
  "ymd2ord y m d = days_before_year y + days_before_month y m + d"

definition max_ordinal :: int where
  "max_ordinal = 3652059"

text \<open>The inverse of \<open>ymd2ord\<close>, following the library's \<open>_ord2ymd\<close>.\<close>

definition ord2ymd :: "int \<Rightarrow> int \<times> int \<times> int" where
  "ord2ymd n0 =
     (let n = n0 - 1;
          n400 = n div 146097; n = n mod 146097;
          n100 = n div 36524; n = n mod 36524;
          n4 = n div 1461; n = n mod 1461;
          n1 = n div 365; n = n mod 365;
          year = n400 * 400 + 1 + n100 * 100 + n4 * 4 + n1
      in if n1 = 4 \<or> n100 = 4 then (year - 1, 12, 31)
         else
           let leapyear = (n1 = 3 \<and> (n4 \<noteq> 24 \<or> n100 = 3));
               month = (n + 50) div 32;
               preceding = days_before_month_tab ! nat (month - 1)
                           + (if 2 < month \<and> leapyear then 1 else 0)
           in if n < preceding
              then
                let month' = month - 1;
                    preceding' = preceding
                       - ((if month' = 2 then 28
                           else if month' = 4 \<or> month' = 6 \<or> month' = 9 \<or> month' = 11
                           then 30 else 31)
                          + (if month' = 2 \<and> leapyear then 1 else 0))
                in (year, month', n - preceding' + 1)
              else (year, month, n - preceding + 1))"

definition digit_char :: "int \<Rightarrow> char" where
  "digit_char d = char_of (48 + d)"

definition pad2 :: "int \<Rightarrow> string" where
  "pad2 n = [digit_char (n div 10 mod 10), digit_char (n mod 10)]"

definition pad4 :: "int \<Rightarrow> string" where
  "pad4 n = [digit_char (n div 1000 mod 10), digit_char (n div 100 mod 10),
             digit_char (n div 10 mod 10), digit_char (n mod 10)]"

text \<open>\<open>strftime("%Y-%m-%d")\<close>, with the year written in four digits.\<close>

definition strftime_ymd :: "datetime \<Rightarrow> string" where
  "strftime_ymd t =
     (case ord2ymd (dt_day t) of (y, m, d) \<Rightarrow> pad4 y @ ''-'' @ pad2 m @ ''-'' @ pad2 d)"

section \<open>The activity record\<close>

record FitnessActivity =
  activity_type :: pyval
  duration :: pyval
  calories :: pyval
  distance :: pyval
  "notes" :: pyval
  date :: pyval

text \<open>
  The constructor. The clock reading \<open>now\<close> is an input; an argument left out is
  \<open>PNone\<close>, its default.
\<close>

definition FitnessActivity_init ::
  "datetime \<Rightarrow> pyval \<Rightarrow> pyval \<Rightarrow> pyval \<Rightarrow> pyval \<Rightarrow> pyval \<Rightarrow> pyval \<Rightarrow> FitnessActivity" where
  "FitnessActivity_init now ty du ca da di no =
     \<lparr> activity_type = ty, duration = du, calories = ca, distance = di, notes = no,
       date = (if truthy da then da else PStr (strftime_ymd now)) \<rparr>"

type_synonym pydict = "(string \<times> pyval) list"

definition to_dict :: "FitnessActivity \<Rightarrow> pydict" where
  "to_dict a =
     [(''activity_type'', activity_type a),
      (''duration'', duration a),
      (''calories'', calories a),
      (''distance'', distance a),
      (''date'', date a),
      (''notes'', notes a)]"

text \<open>\<open>data[k]\<close> raises \<open>KeyError\<close> on a missing key; \<open>data.get(k)\<close> gives \<open>None\<close>.\<close>

definition subscript :: "pydict \<Rightarrow> string \<Rightarrow> error + pyval" where
  "subscript m k = (case map_of m k of None \<Rightarrow> Inl (KeyError k) | Some v \<Rightarrow> Inr v)"

definition dict_get :: "pydict \<Rightarrow> string \<Rightarrow> pyval" where
  "dict_get m k = (case map_of m k of None \<Rightarrow> PNone | Some v \<Rightarrow> v)"

text \<open>The keyword arguments are evaluated in the order they are written.\<close>

definition from_dict :: "datetime \<Rightarrow> pydict \<Rightarrow> error + FitnessActivity" where
  "from_dict now data =
     (case subscript data ''activity_type'' of
        Inl e \<Rightarrow> Inl e
      | Inr ty \<Rightarrow>
         (case subscript data ''duration'' of
            Inl e \<Rightarrow> Inl e
          | Inr du \<Rightarrow>
             (case subscript data ''calories'' of
                Inl e \<Rightarrow> Inl e
              | Inr ca \<Rightarrow>
                 Inr (FitnessActivity_init now ty du ca
                        (dict_get data ''date'') (dict_get data ''distance'')
                        (dict_get data ''notes'')))))"

section \<open>Library functions used by the store\<close>

subsection \<open>\<open>str.lower\<close>\<close>

text \<open>
  On code points below 256 the upper-case letters are \<open>A\<close> to \<open>Z\<close> (65 to 90) and the
  Latin-1 letters 192 to 222 without the multiplication sign 215; each is 32 below its
  lower-case form.
\<close>

definition is_upper_char :: "char \<Rightarrow> bool" where
  "is_upper_char c =
     (let n = (of_char c :: nat)
      in (65 \<le> n \<and> n \<le> 90) \<or> (192 \<le> n \<and> n \<le> 222 \<and> n \<noteq> 215))"

definition lower_char :: "char \<Rightarrow> char" where
  "lower_char c = (if is_upper_char c then char_of ((of_char c :: nat) + 32) else c)"

definition lower :: "string \<Rightarrow> string" where
  "lower s = map lower_char s"

text \<open>\<open>x.lower()\<close> on a value: only a \<open>str\<close> has the method.\<close>

fun py_lower :: "pyval \<Rightarrow> error + string" where
  "py_lower (PStr s) = Inr (lower s)"
| "py_lower _ = Inl AttributeError"

subsection \<open>\<open>datetime.strptime(s, "%Y-%m-%d")\<close>\<close>

definition is_digit :: "char \<Rightarrow> bool" where
  "is_digit c = (48 \<le> (of_char c :: nat) \<and> (of_char c :: nat) \<le> 57)"

definition digit_val :: "char \<Rightarrow> int" where
  "digit_val c = int (of_char c) - 48"

definition in_digits :: "int \<Rightarrow> int \<Rightarrow> char \<Rightarrow> bool" where
  "in_digits lo hi c = (is_digit c \<and> lo \<le> digit_val c \<and> digit_val c \<le> hi)"

text \<open>
  The directive \<open>%m\<close> is the pattern \<open>1[0-2]|0[1-9]|[1-9]\<close> and \<open>%d\<close> is
  \<open>3[01]|[12]\d|0[1-9]|[1-9]| [1-9]\<close>; the alternatives are tried from the left. Each
  function returns the number read and the rest of the input.
\<close>

fun match_month :: "string \<Rightarrow> (int \<times> string) option" where
  "match_month (c1 # c2 # rest) =
     (if c1 = CHR ''1'' \<and> in_digits 0 2 c2 then Some (10 + digit_val c2, rest)
      else if c1 = CHR ''0'' \<and> in_digits 1 9 c2 then Some (digit_val c2, rest)
      else if in_digits 1 9 c1 then Some (digit_val c1, c2 # rest)
      else None)"
| "match_month [c1] = (if in_digits 1 9 c1 then Some (digit_val c1, []) else None)"
| "match_month [] = None"

fun match_day :: "string \<Rightarrow> (int \<times> string) option" where
  "match_day (c1 # c2 # rest) =
     (if c1 = CHR ''3'' \<and> in_digits 0 1 c2 then Some (30 + digit_val c2, rest)
      else if in_digits 1 2 c1 \<and> is_digit c2 then Some (10 * digit_val c1 + digit_val c2, rest)
      else if c1 = CHR ''0'' \<and> in_digits 1 9 c2 then Some (digit_val c2, rest)
      else if in_digits 1 9 c1 then Some (digit_val c1, c2 # rest)
      else if c1 = CHR '' '' \<and> in_digits 1 9 c2 then Some (digit_val c2, rest)
      else None)"
| "match_day [c1] = (if in_digits 1 9 c1 then Some (digit_val c1, []) else None)"
| "match_day [] = None"

text \<open>
  The whole format: four digits, a hyphen, the month, a hyphen, the day, and nothing
  after it (``unconverted data remains'' otherwise).
\<close>

fun match_ymd :: "string \<Rightarrow> (int \<times> int \<times> int) option" where
  "match_ymd (y1 # y2 # y3 # y4 # h # rest) =
     (if is_digit y1 \<and> is_digit y2 \<and> is_digit y3 \<and> is_digit y4 \<and> h = CHR ''-''
      then
        (case match_month rest of
           None \<Rightarrow> None
         | Some (m, rest1) \<Rightarrow>
            (case rest1 of
               [] \<Rightarrow> None
             | h2 # rest2 \<Rightarrow>
                (if h2 = CHR ''-''
                 then
                   (case match_day rest2 of
                      None \<Rightarrow> None
                    | Some (d, rest3) \<Rightarrow>
                       (if rest3 = []
                        then Some (1000 * digit_val y1 + 100 * digit_val y2
                                     + 10 * digit_val y3 + digit_val y4, m, d)
                        else None))
                 else None)))
      else None)"
| "match_ymd _ = None"

text \<open>
  A string that does not match, or names no day of the calendar (year 0, 30 February),
  raises \<open>ValueError\<close>; a value that is no \<open>str\<close> raises \<open>TypeError\<close>. The result is
  midnight of the day.
\<close>

definition strptime_ymd :: "string \<Rightarrow> error + datetime" where
  "strptime_ymd s =
     (case match_ymd s of
        None \<Rightarrow> Inl ValueError
      | Some (y, m, d) \<Rightarrow>
         (if 1 \<le> y \<and> 1 \<le> m \<and> m \<le> 12 \<and> 1 \<le> d \<and> d \<le> days_in_month y m
          then Inr \<lparr> dt_day = ymd2ord y m d, dt_us = 0 \<rparr>
          else Inl ValueError))"

fun strptime :: "pyval \<Rightarrow> error + datetime" where
  "strptime (PStr s) = strptime_ymd s"
| "strptime _ = Inl TypeError"

subsection \<open>\<open>datetime - timedelta(days=n)\<close>\<close>

text \<open>
  A \<open>timedelta\<close> of more than 999999999 days, and a result before year 1 or after year
  9999, raise \<open>OverflowError\<close>. The time of day is kept.
\<close>

definition minus_days :: "datetime \<Rightarrow> int \<Rightarrow> error + datetime" where
  "minus_days t n =
     (if 999999999 < \<bar>n\<bar> then Inl OverflowError
      else if dt_day t - n < 1 \<or> max_ordinal < dt_day t - n then Inl OverflowError
      else Inr (t\<lparr> dt_day := dt_day t - n \<rparr>))"

subsection \<open>\<open>sum\<close>\<close>

text \<open>
  \<open>sum\<close> starts from the integer 0 and adds the items from the left, so the left operand
  of every addition is a number; adding anything but a number to it raises
  \<open>TypeError\<close>. A \<open>bool\<close> counts as the integer 0 or 1.
\<close>

fun as_number :: "pyval \<Rightarrow> (int + real) option" where
  "as_number (PBool b) = Some (Inl (if b then 1 else 0))"
| "as_number (PInt i) = Some (Inl i)"
| "as_number (PFloat r) = Some (Inr r)"
| "as_number _ = None"

definition py_add :: "pyval \<Rightarrow> pyval \<Rightarrow> error + pyval" where
  "py_add x y =
     (case (as_number x, as_number y) of
        (Some (Inl a), Some (Inl b)) \<Rightarrow> Inr (PInt (a + b))
      | (Some (Inl a), Some (Inr r)) \<Rightarrow> Inr (PFloat (of_int a + r))
      | (Some (Inr q), Some (Inl b)) \<Rightarrow> Inr (PFloat (q + of_int b))
      | (Some (Inr q), Some (Inr r)) \<Rightarrow> Inr (PFloat (q + r))
      | _ \<Rightarrow> Inl TypeError)"

fun sum_from :: "pyval \<Rightarrow> pyval list \<Rightarrow> error + pyval" where
  "sum_from acc [] = Inr acc"
| "sum_from acc (x # xs) =
     (case py_add acc x of Inl e \<Rightarrow> Inl e | Inr acc' \<Rightarrow> sum_from acc' xs)"

definition py_sum :: "pyval list \<Rightarrow> error + pyval" where
  "py_sum xs = sum_from (PInt 0) xs"

subsection \<open>Comprehensions whose element or condition may raise\<close>

fun map_raising :: "('a \<Rightarrow> error + 'b) \<Rightarrow> 'a list \<Rightarrow> error + 'b list" where
  "map_raising f [] = Inr []"
| "map_raising f (x # xs) =
     (case f x of
        Inl e \<Rightarrow> Inl e
      | Inr y \<Rightarrow> (case map_raising f xs of Inl e \<Rightarrow> Inl e | Inr ys \<Rightarrow> Inr (y # ys)))"

fun filter_raising :: "('a \<Rightarrow> error + bool) \<Rightarrow> 'a list \<Rightarrow> error + 'a list" where
  "filter_raising p [] = Inr []"
| "filter_raising p (x # xs) =
     (case p x of
        Inl e \<Rightarrow> Inl e
      | Inr b \<Rightarrow>
         (case filter_raising p xs of
            Inl e \<Rightarrow> Inl e
          | Inr ys \<Rightarrow> Inr (if b then x # ys else ys)))"

section \<open>The activity store\<close>

text \<open>
  The backing file holds either text that \<open>json.load\<close> rejects or a JSON document, kept
  here as the value \<open>json.load\<close> returns for it; \<open>json.dump\<close> writes the document of the
  value it is given. A path that names no file maps to \<open>None\<close>.
\<close>

datatype file_content = Garbled | Json pyval

type_synonym filesystem = "string \<Rightarrow> file_content option"

record FitnessTracker =
  data_file :: string
  activities :: "FitnessActivity list"

text \<open>
  A method runs on the tracker object and the file system, and returns its result, or
  the exception it raised, with both as it left them.
\<close>

record state =
  tracker :: FitnessTracker
  files :: filesystem

definition set_activities :: "FitnessActivity list \<Rightarrow> state \<Rightarrow> state" where
  "set_activities xs s = s\<lparr> tracker := (tracker s)\<lparr> activities := xs \<rparr> \<rparr>"

definition save_data :: "state \<Rightarrow> (error + unit) \<times> state" where
  "save_data s =
     (Inr (),
      s\<lparr> files := (files s)(data_file (tracker s) \<mapsto>
             Json (PList (map (\<lambda>a. PDict (to_dict a)) (activities (tracker s))))) \<rparr>)"

text \<open>
  \<open>for item in data\<close>: a list gives its elements, a \<open>str\<close> its characters, a \<open>dict\<close> its
  keys; no other value can be iterated.
\<close>

fun iterate :: "pyval \<Rightarrow> error + pyval list" where
  "iterate (PList xs) = Inr xs"
| "iterate (PStr cs) = Inr (map (\<lambda>c. PStr [c]) cs)"
| "iterate (PDict kvs) = Inr (map (\<lambda>kv. PStr (fst kv)) kvs)"
| "iterate _ = Inl TypeError"

text \<open>
  \<open>FitnessActivity.from_dict(item)\<close> on an arbitrary item: subscripting anything but a
  \<open>dict\<close> with a string raises \<open>TypeError\<close>.
\<close>

fun from_dict_item :: "datetime \<Rightarrow> pyval \<Rightarrow> error + FitnessActivity" where
  "from_dict_item now (PDict m) = from_dict now m"
| "from_dict_item now _ = Inl TypeError"

definition load_data :: "datetime \<Rightarrow> state \<Rightarrow> (error + unit) \<times> state" where
  "load_data now s =
     (case files s (data_file (tracker s)) of
        None \<Rightarrow> (Inr (), s)
      | Some Garbled \<Rightarrow> (Inl JSONDecodeError, s)
      | Some (Json data) \<Rightarrow>
         (case iterate data of
            Inl e \<Rightarrow> (Inl e, s)
          | Inr items \<Rightarrow>
             (case map_raising (from_dict_item now) items of
                Inl e \<Rightarrow> (Inl e, s)
              | Inr xs \<Rightarrow> (Inr (), set_activities xs s))))"

definition FitnessTracker_init ::
  "datetime \<Rightarrow> string \<Rightarrow> filesystem \<Rightarrow> (error + unit) \<times> state" where
  "FitnessTracker_init now path fs =
     load_data now \<lparr> tracker = \<lparr> data_file = path, activities = [] \<rparr>, files = fs \<rparr>"

definition add_activity :: "FitnessActivity \<Rightarrow> state \<Rightarrow> (error + unit) \<times> state" where
  "add_activity a s = save_data (set_activities (activities (tracker s) @ [a]) s)"

text \<open>\<open>del xs[i]\<close> for an index already checked to be in range.\<close>

definition del_at :: "nat \<Rightarrow> 'a list \<Rightarrow> 'a list" where
  "del_at k xs = take k xs @ drop (Suc k) xs"

definition delete_activity :: "int \<Rightarrow> state \<Rightarrow> (error + bool) \<times> state" where
  "delete_activity index s =
     (if 0 \<le> index \<and> index < int (length (activities (tracker s)))
      then
        (case save_data (set_activities (del_at (nat index) (activities (tracker s))) s) of
           (Inl e, s') \<Rightarrow> (Inl e, s')
         | (Inr u, s') \<Rightarrow> (Inr True, s'))
      else (Inr False, s))"

text \<open>Comparing a stored date with a \<open>str\<close>: equal only to the same \<open>str\<close>.\<close>

definition get_activities_by_date ::
  "string \<Rightarrow> state \<Rightarrow> (error + FitnessActivity list) \<times> state" where
  "get_activities_by_date d s =
     (Inr (filter (\<lambda>a. date a = PStr d) (activities (tracker s))), s)"

definition type_matches :: "string \<Rightarrow> FitnessActivity \<Rightarrow> error + bool" where
  "type_matches t a =
     (case py_lower (activity_type a) of
        Inl e \<Rightarrow> Inl e
      | Inr l \<Rightarrow> Inr (l = lower t))"

definition get_activities_by_type ::
  "string \<Rightarrow> state \<Rightarrow> (error + FitnessActivity list) \<times> state" where
  "get_activities_by_type t s =
     (filter_raising (type_matches t) (activities (tracker s)), s)"

definition get_total_calories :: "state \<Rightarrow> (error + pyval) \<times> state" where
  "get_total_calories s = (py_sum (map calories (activities (tracker s))), s)"

definition get_total_duration :: "state \<Rightarrow> (error + pyval) \<times> state" where
  "get_total_duration s = (py_sum (map duration (activities (tracker s))), s)"

record summary =
  start_date :: string
  end_date :: string
  total_calories :: pyval
  total_duration :: pyval
  activity_count :: nat

text \<open>The condition of the comprehension: \<open>start_date <= strptime(date) <= end_date\<close>.\<close>

definition in_window :: "datetime \<Rightarrow> datetime \<Rightarrow> FitnessActivity \<Rightarrow> error + bool" where
  "in_window start_d end_d a =
     (case strptime (date a) of
        Inl e \<Rightarrow> Inl e
      | Inr d \<Rightarrow> Inr (dt_le start_d d \<and> dt_le d end_d))"

text \<open>The selection \<open>weekly_activities\<close>, with the two bounds it was made for.\<close>

definition weekly_activities ::
  "int \<Rightarrow> datetime \<Rightarrow> FitnessActivity list
     \<Rightarrow> error + (datetime \<times> datetime \<times> FitnessActivity list)" where
  "weekly_activities weeks_ago now xs =
     (case minus_days now (7 * weeks_ago) of
        Inl e \<Rightarrow> Inl e
      | Inr end_d \<Rightarrow>
         (case minus_days end_d 7 of
            Inl e \<Rightarrow> Inl e
          | Inr start_d \<Rightarrow>
             (case filter_raising (in_window start_d end_d) xs of
                Inl e \<Rightarrow> Inl e
              | Inr sel \<Rightarrow> Inr (start_d, end_d, sel))))"

definition get_weekly_summary ::
  "int \<Rightarrow> datetime \<Rightarrow> state \<Rightarrow> (error + summary) \<times> state" where
  "get_weekly_summary weeks_ago now s =
     (case weekly_activities weeks_ago now (activities (tracker s)) of
        Inl e \<Rightarrow> (Inl e, s)
      | Inr (start_d, end_d, sel) \<Rightarrow>
         (case py_sum (map calories sel) of
            Inl e \<Rightarrow> (Inl e, s)
          | Inr tc \<Rightarrow>
             (case py_sum (map duration sel) of
                Inl e \<Rightarrow> (Inl e, s)
              | Inr td \<Rightarrow>
                 (Inr \<lparr> start_date = strftime_ymd start_d, end_date = strftime_ymd end_d,
                        total_calories = tc, total_duration = td,
                        activity_count = length sel \<rparr>, s))))"

section \<open>Notions of the specification\<close>

text \<open>A mapping lacks a required key: one of \<open>activity_type\<close>, \<open>duration\<close>, \<open>calories\<close>.\<close>

definition missing_required :: "pydict \<Rightarrow> bool" where
  "missing_required m =
     (map_of m ''activity_type'' = None \<or> map_of m ''duration'' = None
      \<or> map_of m ''calories'' = None)"

text \<open>
  Two strings differ only in letter case: they have the same length and, position by
  position, the same character or the upper-case and lower-case form of one letter.
\<close>

definition case_pair :: "char \<Rightarrow> char \<Rightarrow> bool" where
  "case_pair u l = (is_upper_char u \<and> (of_char l :: nat) = of_char u + 32)"

definition same_letter :: "char \<Rightarrow> char \<Rightarrow> bool" where
  "same_letter c d = (c = d \<or> case_pair c d \<or> case_pair d c)"

definition ci_equal :: "string \<Rightarrow> string \<Rightarrow> bool" where
  "ci_equal a b = list_all2 same_letter a b"

fun is_str :: "pyval \<Rightarrow> bool" where
  "is_str (PStr s) = True"
| "is_str _ = False"

text \<open>The stored type of an activity equals the query string up to letter case.\<close>

fun type_ci_equal :: "string \<Rightarrow> FitnessActivity \<Rightarrow> bool" where
  "type_ci_equal t a = (case activity_type a of PStr l \<Rightarrow> ci_equal l t | _ \<Rightarrow> False)"

text \<open>
  The parsed date of an activity lies between the two bounds, both included; an activity
  whose date does not parse is not in the window.
\<close>

definition date_in_window :: "datetime \<Rightarrow> datetime \<Rightarrow> FitnessActivity \<Rightarrow> bool" where
  "date_in_window start_d end_d a =
     (case strptime (date a) of
        Inl e \<Rightarrow> False
      | Inr d \<Rightarrow> dt_le start_d d \<and> dt_le d end_d)"

section \<open>Example data\<close>

text \<open>
  Two clock readings on 2024-03-15 (day 738960): half past ten in the morning, and
  midnight. An activity of a given type on a given date, a tracker holding given
  activities with no file on disk, and a tracker whose file holds a given document.
\<close>

definition clock_1030 :: datetime where
  "clock_1030 = \<lparr> dt_day = 738960, dt_us = 37800000000 \<rparr>"

definition clock_midnight :: datetime where
  "clock_midnight = \<lparr> dt_day = 738960, dt_us = 0 \<rparr>"

definition activity_on :: "string \<Rightarrow> string \<Rightarrow> FitnessActivity" where
  "activity_on ty d =
     \<lparr> activity_type = PStr ty, duration = PInt 30, calories = PInt 300,
       distance = PNone, notes = PNone, date = PStr d \<rparr>"

definition store_of :: "FitnessActivity list \<Rightarrow> state" where
  "store_of xs =
     \<lparr> tracker = \<lparr> data_file = ''fitness_data.json'', activities = xs \<rparr>,
       files = (\<lambda>p. None) \<rparr>"

definition store_with_file :: "pyval \<Rightarrow> state" where
  "store_with_file doc =
     \<lparr> tracker = \<lparr> data_file = ''fitness_data.json'', activities = [] \<rparr>,
       files = (\<lambda>p. if p = ''fitness_data.json'' then Some (Json doc) else None) \<rparr>"

definition record_without_calories :: pydict where
  "record_without_calories = [(''activity_type'', PStr ''Running''), (''duration'', PInt 30)]"

definition record_required_only :: pydict where
  "record_required_only =
     [(''activity_type'', PStr ''Running''), (''duration'', PInt 30), (''calories'', PInt 300)]"

section \<open>The activity record: construction and conversion\<close>

lemma pad4_not_Nil: "pad4 n \<noteq> []"
  by (simp add: pad4_def)

lemma strftime_ymd_not_Nil: "strftime_ymd t \<noteq> []"
  by (simp add: strftime_ymd_def pad4_def split: prod.splits)

lemma truthy_init_date: "truthy (date (FitnessActivity_init now ty du ca da di no))"
  by (simp add: FitnessActivity_init_def strftime_ymd_not_Nil)

lemma from_dict_to_dict: "truthy (date a) \<Longrightarrow> from_dict now (to_dict a) = Inr a"
  by (simp add: from_dict_def to_dict_def subscript_def dict_get_def FitnessActivity_init_def)

lemma strftime_ymd_shape:
  "length (strftime_ymd t) = 10 \<and> strftime_ymd t ! 4 = CHR ''-'' \<and> strftime_ymd t ! 7 = CHR ''-''"
  by (simp add: strftime_ymd_def pad4_def pad2_def split: prod.splits)

lemma strftime_example:
  "strftime_ymd \<lparr>dt_day = 738960, dt_us = u\<rparr> = ''2024-03-15''"
proof -
  have "ord2ymd 738960 = (2024, 3, 15)" by code_simp
  moreover have "pad4 2024 = ''2024''" "pad2 3 = ''03''" "pad2 15 = ''15''" by code_simp+
  ultimately show ?thesis by (simp add: strftime_ymd_def)
qed

text \<open>
  Claim C2. Converting an activity built by the constructor, from any arguments, to its
  mapping and back gives an activity equal to it in all six fields, whatever the clock
  shows at the time of the conversion back.
\<close>

theorem from_dict_to_dict_roundtrip:
  "from_dict now' (to_dict (FitnessActivity_init now ty du ca da di no))
     = Inr (FitnessActivity_init now ty du ca da di no)"
  by (rule from_dict_to_dict) (rule truthy_init_date)

text \<open>
  Claim C8. A date given as the empty string is treated as a date left out: both are
  replaced by the current date, ten characters long, and so is every other falsy value;
  the empty string is never stored.
\<close>

theorem init_falsy_date:
  "FitnessActivity_init now ty du ca (PStr []) di no = FitnessActivity_init now ty du ca PNone di no
   \<and> date (FitnessActivity_init now ty du ca (PStr []) di no) = PStr (strftime_ymd now)
   \<and> date (FitnessActivity_init now ty du ca (PStr []) di no) \<noteq> PStr []
   \<and> length (strftime_ymd now) = 10
   \<and> (\<not> truthy da \<longrightarrow> date (FitnessActivity_init now ty du ca da di no) = PStr (strftime_ymd now))"
  using strftime_ymd_not_Nil [of now] strftime_ymd_shape [of now]
  by (simp add: FitnessActivity_init_def)

theorem init_falsy_date_witness:
  "\<not> truthy (PInt 0)
   \<and> date (FitnessActivity_init \<lparr>dt_day = 738960, dt_us = 37800000000\<rparr>
        (PStr ''Running'') (PFloat 30) (PFloat 300) (PInt 0) PNone PNone) = PStr ''2024-03-15''
   \<and> FitnessActivity_init \<lparr>dt_day = 738960, dt_us = 37800000000\<rparr>
        (PStr ''Running'') (PFloat 30) (PFloat 300) (PStr []) PNone PNone
      = \<lparr> activity_type = PStr ''Running'', duration = PFloat 30, calories = PFloat 300,
          distance = PNone, notes = PNone, date = PStr ''2024-03-15'' \<rparr>"
  using init_falsy_date [of "\<lparr>dt_day = 738960, dt_us = 37800000000\<rparr>"
        "PStr ''Running''" "PFloat 30" "PFloat 300" PNone PNone "PInt 0"]
  by (simp add: strftime_example FitnessActivity_init_def)

section \<open>Deleting\<close>

text \<open>
  Claim C3. Deleting at an index below 0 or not below the length returns \<open>False\<close>, raises
  nothing, and leaves the tracker and the file as they were.
\<close>

theorem delete_out_of_range:
  "index < 0 \<or> int (length (activities (tracker s))) \<le> index
   \<Longrightarrow> delete_activity index s = (Inr False, s)"
  by (auto simp: delete_activity_def)

theorem delete_out_of_range_witness:
  "delete_activity 1 (store_of [activity_on ''Running'' ''2024-01-01''])
     = (Inr False, store_of [activity_on ''Running'' ''2024-01-01''])
   \<and> delete_activity (- 1) (store_of [activity_on ''Running'' ''2024-01-01''])
     = (Inr False, store_of [activity_on ''Running'' ''2024-01-01''])
   \<and> delete_activity 0 (store_of []) = (Inr False, store_of [])"
  using delete_out_of_range [of 1 "store_of [activity_on ''Running'' ''2024-01-01'']"]
    delete_out_of_range [of "- 1" "store_of [activity_on ''Running'' ''2024-01-01'']"]
    delete_out_of_range [of 0 "store_of []"]
  by (simp add: store_of_def)

lemma del_at_length: "k < length xs \<Longrightarrow> length (del_at k xs) = length xs - 1"
  by (simp add: del_at_def)

lemma del_at_nth_below: "j < k \<Longrightarrow> k < length xs \<Longrightarrow> del_at k xs ! j = xs ! j"
  by (simp add: del_at_def nth_append)

lemma del_at_nth_above: "k \<le> j \<Longrightarrow> Suc j < length xs \<Longrightarrow> del_at k xs ! j = xs ! Suc j"
  by (simp add: del_at_def nth_append min_def)

text \<open>
  Claim C7. Deleting at an index \<open>k\<close> in range returns \<open>True\<close>; the sequence is one shorter,
  the elements before \<open>k\<close> stay where they were, and each later element moves down by one.
\<close>

theorem delete_in_range:
  assumes "0 \<le> k" and "k < int (length (activities (tracker s)))"
  shows "fst (delete_activity k s) = Inr True
    \<and> length (activities (tracker (snd (delete_activity k s))))
        = length (activities (tracker s)) - 1
    \<and> (\<forall>j. j < nat k \<longrightarrow>
          activities (tracker (snd (delete_activity k s))) ! j = activities (tracker s) ! j)
    \<and> (\<forall>j. nat k \<le> j \<and> Suc j < length (activities (tracker s)) \<longrightarrow>
          activities (tracker (snd (delete_activity k s))) ! j
            = activities (tracker s) ! Suc j)"
proof -
  let ?xs = "activities (tracker s)"
  have k: "nat k < length ?xs" using assms by simp
  have d: "delete_activity k s =
     (Inr True, (set_activities (del_at (nat k) ?xs) s)\<lparr> files := (files s)(data_file (tracker s) \<mapsto>
             Json (PList (map (\<lambda>a. PDict (to_dict a)) (del_at (nat k) ?xs)))) \<rparr>)"
    using assms by (simp add: delete_activity_def save_data_def set_activities_def)
  have a: "activities (tracker (snd (delete_activity k s))) = del_at (nat k) ?xs"
    by (simp add: d set_activities_def)
  have f: "fst (delete_activity k s) = Inr True"
    by (simp add: d)
  show ?thesis
    using k by (simp add: a f del_at_length del_at_nth_below del_at_nth_above)
qed

theorem delete_in_range_witness:
  "fst (delete_activity 0 (store_of [activity_on ''Running'' ''2024-01-01'',
                                      activity_on ''Swimming'' ''2024-01-02''])) = Inr True
   \<and> length (activities (tracker (snd (delete_activity 0
         (store_of [activity_on ''Running'' ''2024-01-01'',
                    activity_on ''Swimming'' ''2024-01-02'']))))) = 1
   \<and> activities (tracker (snd (delete_activity 0
         (store_of [activity_on ''Running'' ''2024-01-01'',
                    activity_on ''Swimming'' ''2024-01-02''])))) ! 0
       = activity_on ''Swimming'' ''2024-01-02''"
proof -
  let ?s = "store_of [activity_on ''Running'' ''2024-01-01'',
                      activity_on ''Swimming'' ''2024-01-02'']"
  have a: "(0::int) \<le> 0" by simp
  have b: "0 < int (length (activities (tracker ?s)))" by (simp add: store_of_def)
  have l: "activities (tracker ?s) ! Suc 0 = activity_on ''Swimming'' ''2024-01-02''"
    by (simp add: store_of_def)
  have n: "length (activities (tracker ?s)) = 2" by (simp add: store_of_def)
  from delete_in_range [OF a b] show ?thesis
    by (simp add: l n)
qed

section \<open>Queries\<close>

text \<open>
  Claim C10. The five queries leave the tracker object and the file system as they found
  them, whether they return or raise.
\<close>

theorem queries_pure:
  "snd (get_activities_by_date d s) = s
   \<and> snd (get_activities_by_type t s) = s
   \<and> snd (get_total_calories s) = s
   \<and> snd (get_total_duration s) = s
   \<and> snd (get_weekly_summary weeks_ago now s) = s"
  by (simp add: get_activities_by_date_def get_activities_by_type_def get_total_calories_def
      get_total_duration_def get_weekly_summary_def split: sum.splits prod.splits)

section \<open>Saving and loading\<close>

lemma map_raising_Inr_length: "map_raising f xs = Inr ys \<Longrightarrow> length ys = length xs"
  by (induction xs arbitrary: ys) (auto split: sum.splits)

lemma map_raising_fails:
  "x \<in> set xs \<Longrightarrow> f x = Inl e \<Longrightarrow> \<exists>e'. map_raising f xs = Inl e'"
  by (induction xs) (auto split: sum.splits)

lemma map_raising_fails_with:
  "x \<in> set xs \<Longrightarrow> P x \<Longrightarrow> \<forall>y\<in>set xs. P y \<longrightarrow> (\<exists>e. f y = Inl e \<and> Q e)
   \<Longrightarrow> \<forall>y\<in>set xs. \<forall>e. f y = Inl e \<longrightarrow> Q e
   \<Longrightarrow> \<exists>e. map_raising f xs = Inl e \<and> Q e"
proof (induction xs)
  case Nil
  then show ?case by simp
next
  case (Cons y ys)
  show ?case
  proof (cases "f y")
    case (Inl e)
    with Cons.prems show ?thesis by simp
  next
    case (Inr b)
    with Cons.prems have "x \<in> set ys" by auto
    with Cons have "\<exists>e. map_raising f ys = Inl e \<and> Q e" by simp
    with Inr show ?thesis by auto
  qed
qed

lemma map_raising_all_Inr:
  "\<forall>x\<in>set xs. f x = Inr (g x) \<Longrightarrow> map_raising f xs = Inr (map g xs)"
  by (induction xs) auto

lemma load_items_of_saved:
  "\<forall>a\<in>set xs. truthy (date a)
   \<Longrightarrow> map_raising (from_dict_item now) (map (\<lambda>a. PDict (to_dict a)) xs) = Inr xs"
  by (induction xs) (auto simp: from_dict_to_dict)

lemma load_data_of_saved:
  assumes "\<forall>a\<in>set (activities (tracker s)). truthy (date a)"
  shows "load_data now (set_activities ys (snd (save_data s))) = (Inr (), snd (save_data s))"
  using load_items_of_saved [OF assms, of now]
  by (simp add: load_data_def save_data_def set_activities_def)

lemma tracker_init_of_saved:
  assumes "\<forall>a\<in>set (activities (tracker s)). truthy (date a)"
  shows "FitnessTracker_init now (data_file (tracker s)) (files (snd (save_data s)))
           = (Inr (), snd (save_data s))"
  using load_items_of_saved [OF assms, of now]
  by (simp add: FitnessTracker_init_def load_data_def save_data_def set_activities_def)

text \<open>
  Claim C4. For a sequence of activities whose dates are truthy, as the constructor makes
  them, loading right after saving succeeds and installs the sequence read back from the
  file, equal to the saved one: from the state that saved it, from a state whose list in
  memory is any other list, and in a new tracker opened on the saved file.
\<close>

theorem save_then_load:
  assumes "\<forall>a\<in>set (activities (tracker s)). truthy (date a)"
  shows "load_data now (snd (save_data s)) = (Inr (), snd (save_data s))
     \<and> activities (tracker (snd (load_data now (snd (save_data s)))))
         = activities (tracker s)
     \<and> load_data now (set_activities ys (snd (save_data s))) = (Inr (), snd (save_data s))
     \<and> activities (tracker (snd (load_data now (set_activities ys (snd (save_data s))))))
         = activities (tracker s)
     \<and> FitnessTracker_init now (data_file (tracker s)) (files (snd (save_data s)))
         = (Inr (), snd (save_data s))
     \<and> activities (tracker (snd (FitnessTracker_init now (data_file (tracker s))
                                     (files (snd (save_data s))))))
         = activities (tracker s)"
proof -
  have s: "activities (tracker (snd (save_data s))) = activities (tracker s)"
    by (simp add: save_data_def)
  have i: "set_activities (activities (tracker (snd (save_data s)))) (snd (save_data s))
             = snd (save_data s)"
    by (simp add: set_activities_def)
  note l = load_data_of_saved [OF assms, of now]
  have 1: "load_data now (snd (save_data s)) = (Inr (), snd (save_data s))"
    using l [of "activities (tracker (snd (save_data s)))"] by (simp only: i)
  have 3: "load_data now (set_activities ys (snd (save_data s))) = (Inr (), snd (save_data s))"
    by (rule l)
  have 5: "FitnessTracker_init now (data_file (tracker s)) (files (snd (save_data s)))
         = (Inr (), snd (save_data s))"
    using assms by (rule tracker_init_of_saved)
  show ?thesis by (simp add: 1 3 5 s)
qed

theorem save_then_load_witness:
  "truthy (date (activity_on ''Running'' ''2024-01-01''))
   \<and> truthy (date (activity_on ''Swimming'' ''2024-01-02''))
   \<and> fst (load_data clock_1030 (snd (save_data
         (store_of [activity_on ''Running'' ''2024-01-01'',
                    activity_on ''Swimming'' ''2024-01-02''])))) = Inr ()
   \<and> activities (tracker (snd (load_data clock_1030 (snd (save_data
         (store_of [activity_on ''Running'' ''2024-01-01'',
                    activity_on ''Swimming'' ''2024-01-02'']))))))
       = [activity_on ''Running'' ''2024-01-01'', activity_on ''Swimming'' ''2024-01-02'']
   \<and> activities (tracker (snd (load_data clock_1030
         (set_activities [activity_on ''Cycling'' ''2023-12-31'']
            (snd (save_data
               (store_of [activity_on ''Running'' ''2024-01-01'',
                          activity_on ''Swimming'' ''2024-01-02'']))))))) 
       = [activity_on ''Running'' ''2024-01-01'', activity_on ''Swimming'' ''2024-01-02'']
   \<and> activities (tracker (snd (FitnessTracker_init clock_1030 ''fitness_data.json''
         (files (snd (save_data
               (store_of [activity_on ''Running'' ''2024-01-01'',
                          activity_on ''Swimming'' ''2024-01-02''])))))))
       = [activity_on ''Running'' ''2024-01-01'', activity_on ''Swimming'' ''2024-01-02'']"
proof -
  let ?s = "store_of [activity_on ''Running'' ''2024-01-01'',
                      activity_on ''Swimming'' ''2024-01-02'']"
  have h: "\<forall>a\<in>set (activities (tracker ?s)). truthy (date a)"
    by (simp add: store_of_def activity_on_def)
  have x: "activities (tracker ?s)
      = [activity_on ''Running'' ''2024-01-01'', activity_on ''Swimming'' ''2024-01-02'']"
    by (simp add: store_of_def)
  have p: "data_file (tracker ?s) = ''fitness_data.json''"
    by (simp add: store_of_def)
  note t = save_then_load [OF h, of clock_1030 "[activity_on ''Cycling'' ''2023-12-31'']"]
  have r1: "fst (load_data clock_1030 (snd (save_data ?s))) = Inr ()"
    using t by simp
  have r2: "activities (tracker (snd (load_data clock_1030 (snd (save_data ?s)))))
      = activities (tracker ?s)"
    using t by blast
  have r3: "activities (tracker (snd (load_data clock_1030
         (set_activities [activity_on ''Cycling'' ''2023-12-31''] (snd (save_data ?s))))))
      = activities (tracker ?s)"
    using t by blast
  have r4: "activities (tracker (snd (FitnessTracker_init clock_1030 (data_file (tracker ?s))
         (files (snd (save_data ?s))))))
      = activities (tracker ?s)"
    using t by blast
  have d: "truthy (date (activity_on ''Running'' ''2024-01-01''))"
    "truthy (date (activity_on ''Swimming'' ''2024-01-02''))"
    by (simp_all add: activity_on_def)
  from d r1 r2 r3 r4 [unfolded p] x show ?thesis
    by (simp only: simp_thms)
qed

text \<open>
  The hypothesis on the dates holds in every state the program reaches: loading builds
  each activity with the constructor, and adding a constructed activity and deleting
  keep it.
\<close>

lemma from_dict_date_truthy: "from_dict now m = Inr a \<Longrightarrow> truthy (date a)"
  by (auto simp: from_dict_def truthy_init_date split: sum.splits)

lemma from_dict_item_date_truthy: "from_dict_item now x = Inr a \<Longrightarrow> truthy (date a)"
  by (cases x) (auto dest: from_dict_date_truthy)

lemma map_raising_all:
  "map_raising f xs = Inr ys \<Longrightarrow> \<forall>x b. f x = Inr b \<longrightarrow> P b \<Longrightarrow> \<forall>y\<in>set ys. P y"
  by (induction xs arbitrary: ys) (auto split: sum.splits)

lemma load_data_dates_truthy:
  assumes "load_data now s = (Inr u, s')"
    and "\<forall>a\<in>set (activities (tracker s)). truthy (date a)"
  shows "\<forall>a\<in>set (activities (tracker s')). truthy (date a)"
  using assms map_raising_all [of "from_dict_item now" _ _ "\<lambda>a. truthy (date a)"]
    from_dict_item_date_truthy
  by (auto simp: load_data_def set_activities_def
      split: option.splits file_content.splits sum.splits)

lemma tracker_init_dates_truthy:
  "FitnessTracker_init now path fs = (Inr u, s)
   \<Longrightarrow> \<forall>a\<in>set (activities (tracker s)). truthy (date a)"
  unfolding FitnessTracker_init_def
  by (erule load_data_dates_truthy) simp

lemma add_activity_dates_truthy:
  assumes "\<forall>a\<in>set (activities (tracker s)). truthy (date a)"
  shows "\<forall>a\<in>set (activities (tracker (snd (add_activity
            (FitnessActivity_init now ty du ca da di no) s)))). truthy (date a)"
  using assms truthy_init_date [of now ty du ca da di no]
  by (auto simp: add_activity_def save_data_def set_activities_def)

lemma set_del_at: "set (del_at k xs) \<subseteq> set xs"
  by (auto simp: del_at_def dest: in_set_takeD in_set_dropD)

lemma delete_activity_dates_truthy:
  assumes "\<forall>a\<in>set (activities (tracker s)). truthy (date a)"
  shows "\<forall>a\<in>set (activities (tracker (snd (delete_activity i s)))). truthy (date a)"
  using assms set_del_at [of "nat i" "activities (tracker s)"]
  by (auto simp: delete_activity_def save_data_def set_activities_def)

lemma from_dict_KeyError_iff:
  "(\<exists>k. from_dict now m = Inl (KeyError k)) \<longleftrightarrow> missing_required m"
  by (auto simp: from_dict_def subscript_def missing_required_def split: option.splits)

lemma from_dict_Inl_KeyError: "from_dict now m = Inl e \<Longrightarrow> \<exists>k. e = KeyError k"
  by (auto simp: from_dict_def subscript_def split: option.splits)

lemma from_dict_Inr_iff:
  "(\<exists>a. from_dict now m = Inr a) \<longleftrightarrow> \<not> missing_required m"
  by (auto simp: from_dict_def subscript_def missing_required_def split: option.splits)

lemma from_dict_present:
  "\<not> missing_required m \<Longrightarrow>
   from_dict now m = Inr (FitnessActivity_init now
       (the (map_of m ''activity_type'')) (the (map_of m ''duration''))
       (the (map_of m ''calories'')) (dict_get m ''date'') (dict_get m ''distance'')
       (dict_get m ''notes''))"
  by (auto simp: from_dict_def subscript_def missing_required_def split: option.splits)

lemma load_data_fails:
  assumes "files s (data_file (tracker s)) = Some (Json (PList items))"
    and "x \<in> set items" and "from_dict_item now x = Inl e"
  shows "\<exists>e'. load_data now s = (Inl e', s)"
  using map_raising_fails [of x items "from_dict_item now" e] assms
  by (auto simp: load_data_def)

lemma load_data_fails_KeyError:
  assumes f: "files s (data_file (tracker s)) = Some (Json (PList items))"
    and d: "\<forall>y\<in>set items. \<exists>r. y = PDict r"
    and x: "PDict m \<in> set items" and m: "missing_required m"
  shows "\<exists>k. load_data now s = (Inl (KeyError k), s)"
proof -
  have 1: "\<forall>y\<in>set items. y = PDict m \<longrightarrow>
             (\<exists>e. from_dict_item now y = Inl e \<and> (\<exists>k. e = KeyError k))"
    using m from_dict_KeyError_iff [of now m] by auto
  have 2: "\<forall>y\<in>set items. \<forall>e. from_dict_item now y = Inl e \<longrightarrow> (\<exists>k. e = KeyError k)"
    using d from_dict_Inl_KeyError by fastforce
  have "\<exists>e. map_raising (from_dict_item now) items = Inl e \<and> (\<exists>k. e = KeyError k)"
    using map_raising_fails_with
      [of "PDict m" items "\<lambda>y. y = PDict m" "from_dict_item now" "\<lambda>e. \<exists>k. e = KeyError k"]
      x 1 2 by blast
  then show ?thesis using f by (auto simp: load_data_def)
qed

text \<open>
  Claim C5. \<open>from_dict\<close> raises \<open>KeyError\<close> exactly when a required key is missing and
  returns an activity otherwise; a stored list with such a record makes the whole load
  raise and leaves the tracker unchanged, with a \<open>KeyError\<close> when all items are
  mappings; missing optional keys give \<open>None\<close> for distance and notes and the current
  date for the date.
\<close>

theorem from_dict_missing_field:
  "((\<exists>k. from_dict now m = Inl (KeyError k)) \<longleftrightarrow> missing_required m)
   \<and> ((\<exists>a. from_dict now m = Inr a) \<longleftrightarrow> \<not> missing_required m)
   \<and> (files s (data_file (tracker s)) = Some (Json (PList items))
        \<and> PDict m \<in> set items \<and> missing_required m
      \<longrightarrow> (\<exists>e. load_data now s = (Inl e, s)))
   \<and> (files s (data_file (tracker s)) = Some (Json (PList items))
        \<and> (\<forall>y\<in>set items. \<exists>r. y = PDict r)
        \<and> PDict m \<in> set items \<and> missing_required m
      \<longrightarrow> (\<exists>k. load_data now s = (Inl (KeyError k), s)))
   \<and> (\<not> missing_required m \<longrightarrow>
        (\<exists>a. from_dict now m = Inr a
           \<and> distance a = (case map_of m ''distance'' of None \<Rightarrow> PNone | Some v \<Rightarrow> v)
           \<and> notes a = (case map_of m ''notes'' of None \<Rightarrow> PNone | Some v \<Rightarrow> v)
           \<and> date a = (case map_of m ''date'' of
                         None \<Rightarrow> PStr (strftime_ymd now)
                       | Some v \<Rightarrow> if truthy v then v else PStr (strftime_ymd now))))"
proof -
  have a: "(\<exists>k. from_dict now m = Inl (KeyError k)) \<longleftrightarrow> missing_required m"
    by (rule from_dict_KeyError_iff)
  have b: "(\<exists>a. from_dict now m = Inr a) \<longleftrightarrow> \<not> missing_required m"
    by (rule from_dict_Inr_iff)
  have c: "files s (data_file (tracker s)) = Some (Json (PList items))
        \<and> PDict m \<in> set items \<and> missing_required m
      \<longrightarrow> (\<exists>e. load_data now s = (Inl e, s))"
  proof
    assume h: "files s (data_file (tracker s)) = Some (Json (PList items))
        \<and> PDict m \<in> set items \<and> missing_required m"
    then obtain k where "from_dict now m = Inl (KeyError k)"
      using a by blast
    then have "from_dict_item now (PDict m) = Inl (KeyError k)" by simp
    with h show "\<exists>e. load_data now s = (Inl e, s)"
      using load_data_fails [of s items "PDict m" now "KeyError k"] by blast
  qed
  have d: "files s (data_file (tracker s)) = Some (Json (PList items))
        \<and> (\<forall>y\<in>set items. \<exists>r. y = PDict r)
        \<and> PDict m \<in> set items \<and> missing_required m
      \<longrightarrow> (\<exists>k. load_data now s = (Inl (KeyError k), s))"
    using load_data_fails_KeyError [of s items m now] by blast
  have e: "\<not> missing_required m \<longrightarrow>
        (\<exists>a. from_dict now m = Inr a
           \<and> distance a = (case map_of m ''distance'' of None \<Rightarrow> PNone | Some v \<Rightarrow> v)
           \<and> notes a = (case map_of m ''notes'' of None \<Rightarrow> PNone | Some v \<Rightarrow> v)
           \<and> date a = (case map_of m ''date'' of
                         None \<Rightarrow> PStr (strftime_ymd now)
                       | Some v \<Rightarrow> if truthy v then v else PStr (strftime_ymd now)))"
    by (auto simp: from_dict_present FitnessActivity_init_def dict_get_def split: option.splits)
  from a b c d e show ?thesis by blast
qed

theorem from_dict_missing_field_witness:
  "missing_required record_without_calories
   \<and> \<not> missing_required record_required_only
   \<and> from_dict clock_1030 record_without_calories = Inl (KeyError ''calories'')
   \<and> (\<exists>k. load_data clock_1030
              (store_with_file (PList [PDict record_required_only, PDict record_without_calories]))
            = (Inl (KeyError k),
               store_with_file (PList [PDict record_required_only, PDict record_without_calories])))
   \<and> (\<exists>a. from_dict clock_1030 record_required_only = Inr a
          \<and> distance a = PNone \<and> notes a = PNone \<and> date a = PStr ''2024-03-15'')"
proof -
  let ?items = "[PDict record_required_only, PDict record_without_calories]"
  let ?s = "store_with_file (PList ?items)"
  note t = from_dict_missing_field [of clock_1030 record_without_calories ?s ?items]
  note u = from_dict_missing_field [of clock_1030 record_required_only ?s ?items]
  have m: "missing_required record_without_calories"
    by (simp add: missing_required_def record_without_calories_def)
  have n: "\<not> missing_required record_required_only"
    by (simp add: missing_required_def record_required_only_def)
  have f: "files ?s (data_file (tracker ?s)) = Some (Json (PList ?items))"
    by (simp add: store_with_file_def)
  have d: "\<forall>y\<in>set ?items. \<exists>r. y = PDict r" by simp
  have i: "PDict record_without_calories \<in> set ?items" by simp
  have k: "from_dict clock_1030 record_without_calories = Inl (KeyError ''calories'')"
    by (simp add: from_dict_def subscript_def record_without_calories_def)
  have l: "\<exists>k. load_data clock_1030 ?s = (Inl (KeyError k), ?s)"
    using t f d i m by blast
  have c: "strftime_ymd clock_1030 = ''2024-03-15''"
    by (simp add: clock_1030_def strftime_example)
  have o: "map_of record_required_only ''distance'' = None"
    "map_of record_required_only ''notes'' = None"
    "map_of record_required_only ''date'' = None"
    by (simp_all add: record_required_only_def)
  have e: "\<exists>a. from_dict clock_1030 record_required_only = Inr a
          \<and> distance a = PNone \<and> notes a = PNone \<and> date a = PStr ''2024-03-15''"
    using u n by (simp add: o c)
  from m n k l e show ?thesis by blast
qed

section \<open>Filtering by type\<close>

lemma of_char_lower_char:
  "(of_char (lower_char c) :: nat) = (if is_upper_char c then of_char c + 32 else of_char c)"
  by (auto simp: lower_char_def is_upper_char_def Let_def)

lemma lower_char_eq_iff:
  "lower_char c = lower_char d
     \<longleftrightarrow> (of_char (lower_char c) :: nat) = of_char (lower_char d)"
  by simp

lemma char_eq_iff_nat: "c = d \<longleftrightarrow> (of_char c :: nat) = of_char d"
  by simp

lemma same_letter_arith:
  fixes n m :: nat
  shows "((if (65 \<le> n \<and> n \<le> 90) \<or> (192 \<le> n \<and> n \<le> 222 \<and> n \<noteq> 215) then n + 32 else n)
        = (if (65 \<le> m \<and> m \<le> 90) \<or> (192 \<le> m \<and> m \<le> 222 \<and> m \<noteq> 215) then m + 32 else m))
     \<longleftrightarrow> (n = m
          \<or> (((65 \<le> n \<and> n \<le> 90) \<or> (192 \<le> n \<and> n \<le> 222 \<and> n \<noteq> 215)) \<and> m = n + 32)
          \<or> (((65 \<le> m \<and> m \<le> 90) \<or> (192 \<le> m \<and> m \<le> 222 \<and> m \<noteq> 215)) \<and> n = m + 32))"
  by presburger

lemma same_letter_iff: "same_letter c d \<longleftrightarrow> lower_char c = lower_char d"
  unfolding lower_char_eq_iff of_char_lower_char same_letter_def case_pair_def
    is_upper_char_def Let_def char_eq_iff_nat [of c d]
  using same_letter_arith [of "of_char c" "of_char d"] by blast

lemma ci_equal_iff: "ci_equal a b \<longleftrightarrow> lower a = lower b"
  unfolding ci_equal_def lower_def
  by (induction a b rule: list_induct2') (simp_all add: same_letter_iff)

lemma filter_raising_Inr:
  "filter_raising p xs = Inr ys \<Longrightarrow> ys = filter (\<lambda>x. p x = Inr True) xs"
  by (induction xs arbitrary: ys) (auto split: sum.splits if_splits)

lemma filter_raising_total:
  "\<forall>x\<in>set xs. \<exists>b. p x = Inr b
   \<Longrightarrow> filter_raising p xs = Inr (filter (\<lambda>x. p x = Inr True) xs)"
  by (induction xs) (auto split: sum.splits)

lemma filter_raising_fails:
  "x \<in> set xs \<Longrightarrow> p x = Inl e \<Longrightarrow> \<exists>e'. filter_raising p xs = Inl e'"
  by (induction xs) (auto split: sum.splits)

lemma type_matches_str:
  "is_str (activity_type a) \<Longrightarrow> type_matches t a = Inr (type_ci_equal t a)"
  by (cases "activity_type a") (auto simp: type_matches_def ci_equal_iff)




text \<open>
  Claim C9. Whatever \<open>get_activities_by_type\<close> returns is the list of the matching
  activities in the order of the store, a subsequence of it; and it does return when
  every stored type is a \<open>str\<close>.
\<close>

theorem by_type_keeps_order:
  "(fst (get_activities_by_type t s) = Inr r \<longrightarrow>
      r = filter (\<lambda>a. type_matches t a = Inr True) (activities (tracker s))
      \<and> subseq r (activities (tracker s)))
   \<and> ((\<forall>a\<in>set (activities (tracker s)). is_str (activity_type a)) \<longrightarrow>
        (\<exists>r. fst (get_activities_by_type t s) = Inr r))"
proof -
  have 1: "fst (get_activities_by_type t s) = Inr r \<longrightarrow>
      r = filter (\<lambda>a. type_matches t a = Inr True) (activities (tracker s))
      \<and> subseq r (activities (tracker s))"
    using filter_raising_Inr [of "type_matches t" "activities (tracker s)" r]
    by (auto simp: get_activities_by_type_def)
  have 2: "(\<forall>a\<in>set (activities (tracker s)). is_str (activity_type a)) \<longrightarrow>
        (\<exists>r. fst (get_activities_by_type t s) = Inr r)"
    using filter_raising_total [of "activities (tracker s)" "type_matches t"]
    by (auto simp: get_activities_by_type_def type_matches_str)
  from 1 2 show ?thesis by blast
qed

theorem by_type_keeps_order_witness:
  "is_str (activity_type (activity_on ''Running'' ''2024-01-01''))
   \<and> is_str (activity_type (activity_on ''swimming'' ''2024-01-02''))
   \<and> is_str (activity_type (activity_on ''RUNNING'' ''2024-01-03''))
   \<and> (\<exists>r. fst (get_activities_by_type ''running'' (store_of
        [activity_on ''Running'' ''2024-01-01'', activity_on ''swimming'' ''2024-01-02'',
         activity_on ''RUNNING'' ''2024-01-03''])) = Inr r
        \<and> subseq r [activity_on ''Running'' ''2024-01-01'', activity_on ''swimming'' ''2024-01-02'',
         activity_on ''RUNNING'' ''2024-01-03''])"
proof -
  let ?xs = "[activity_on ''Running'' ''2024-01-01'', activity_on ''swimming'' ''2024-01-02'',
         activity_on ''RUNNING'' ''2024-01-03'']"
  have h: "\<forall>a\<in>set (activities (tracker (store_of ?xs))). is_str (activity_type a)"
    by (simp add: store_of_def activity_on_def)
  have x: "activities (tracker (store_of ?xs)) = ?xs" by (simp add: store_of_def)
  from by_type_keeps_order [of "''running''" "store_of ?xs"] h
  have "\<exists>r. fst (get_activities_by_type ''running'' (store_of ?xs)) = Inr r
          \<and> subseq r (activities (tracker (store_of ?xs)))"
    by blast
  moreover have "is_str (activity_type (activity_on ''Running'' ''2024-01-01''))"
    "is_str (activity_type (activity_on ''swimming'' ''2024-01-02''))"
    "is_str (activity_type (activity_on ''RUNNING'' ''2024-01-03''))"
    by (simp_all add: activity_on_def)
  ultimately show ?thesis using x by (simp only: simp_thms)
qed

section \<open>The weekly summary\<close>

lemma strptime_ymd_midnight: "strptime_ymd s = Inr d \<Longrightarrow> dt_us d = 0"
  by (auto simp: strptime_ymd_def split: option.splits prod.splits if_splits)

lemma strptime_midnight: "strptime v = Inr d \<Longrightarrow> dt_us d = 0"
  by (cases v) (auto dest: strptime_ymd_midnight)

lemma minus_days_in_range:
  "\<bar>n\<bar> \<le> 999999999 \<Longrightarrow> 1 \<le> dt_day t - n \<Longrightarrow> dt_day t - n \<le> max_ordinal
   \<Longrightarrow> minus_days t n = Inr (t\<lparr> dt_day := dt_day t - n \<rparr>)"
  by (simp add: minus_days_def)

lemma in_window_parsed:
  "strptime (date a) = Inr d \<Longrightarrow> in_window start_d end_d a = Inr (date_in_window start_d end_d a)"
  by (simp add: in_window_def date_in_window_def)

lemma date_in_window_days:
  assumes "strptime (date a) = Inr d" and "dt_us start_d = dt_us end_d"
  shows "date_in_window start_d end_d a
         \<longleftrightarrow> (dt_day start_d < dt_day d \<and> dt_day d \<le> dt_day end_d)
              \<or> (dt_day d = dt_day start_d \<and> dt_day d \<le> dt_day end_d \<and> dt_us end_d = 0)"
  using assms strptime_midnight [OF assms(1)]
  by (auto simp: date_in_window_def dt_le_def)

lemma weekly_activities_parsed:
  assumes w: "0 \<le> weeks_ago" and lo: "8 + 7 * weeks_ago \<le> dt_day now"
    and hi: "dt_day now \<le> max_ordinal"
    and p: "\<forall>a\<in>set xs. \<exists>d. strptime (date a) = Inr d"
  shows "weekly_activities weeks_ago now xs =
      Inr (now\<lparr> dt_day := dt_day now - 7 * weeks_ago - 7 \<rparr>,
           now\<lparr> dt_day := dt_day now - 7 * weeks_ago \<rparr>,
           filter (date_in_window (now\<lparr> dt_day := dt_day now - 7 * weeks_ago - 7 \<rparr>)
                                  (now\<lparr> dt_day := dt_day now - 7 * weeks_ago \<rparr>)) xs)"
proof -
  let ?e = "now\<lparr> dt_day := dt_day now - 7 * weeks_ago \<rparr>"
  let ?s = "now\<lparr> dt_day := dt_day now - 7 * weeks_ago - 7 \<rparr>"
  have m: "max_ordinal = 3652059" by (simp add: max_ordinal_def)
  have e: "minus_days now (7 * weeks_ago) = Inr ?e"
    using w lo hi m by (intro minus_days_in_range) auto
  have s: "minus_days ?e 7 = Inr ?s"
    using w lo hi m by (simp add: minus_days_def)
  have t: "\<forall>a\<in>set xs. \<exists>b. in_window ?s ?e a = Inr b"
    using p by (auto simp: in_window_parsed)
  have f: "filter (\<lambda>a. in_window ?s ?e a = Inr True) xs = filter (date_in_window ?s ?e) xs"
    using p by (intro filter_cong) (auto simp: in_window_parsed)
  show ?thesis
    using filter_raising_total [OF t] by (simp add: weekly_activities_def e s f)
qed

lemma parse_0307: "strptime_ymd ''2024-03-07'' = Inr \<lparr> dt_day = 738952, dt_us = 0 \<rparr>"
  by code_simp

lemma parse_0308: "strptime_ymd ''2024-03-08'' = Inr \<lparr> dt_day = 738953, dt_us = 0 \<rparr>"
  by code_simp

lemma parse_0309: "strptime_ymd ''2024-03-09'' = Inr \<lparr> dt_day = 738954, dt_us = 0 \<rparr>"
  by code_simp

lemma parse_0315: "strptime_ymd ''2024-03-15'' = Inr \<lparr> dt_day = 738960, dt_us = 0 \<rparr>"
  by code_simp

lemma strftime_0308: "strftime_ymd \<lparr>dt_day = 738953, dt_us = u\<rparr> = ''2024-03-08''"
proof -
  have "ord2ymd 738953 = (2024, 3, 8)" by code_simp
  moreover have "pad4 2024 = ''2024''" "pad2 3 = ''03''" "pad2 8 = ''08''" by code_simp+
  ultimately show ?thesis by (simp add: strftime_ymd_def)
qed

text \<open>
  Claim C1. As stated the claim fails: at half past ten on 2024-03-15 an activity dated
  2024-03-08, seven days before, is not selected, and neither is one dated 2024-03-07.
\<close>

theorem weekly_summary_seven_days_counterexample:
  "strptime (date (activity_on ''Running'' ''2024-03-08''))
     = Inr \<lparr> dt_day = dt_day clock_1030 - 7, dt_us = 0 \<rparr>
   \<and> strftime_ymd \<lparr> dt_day = dt_day clock_1030 - 7, dt_us = dt_us clock_1030 \<rparr> = ''2024-03-08''
   \<and> weekly_activities 0 clock_1030
        [activity_on ''Running'' ''2024-03-08'', activity_on ''Running'' ''2024-03-07'']
       = Inr (\<lparr> dt_day = 738953, dt_us = 37800000000 \<rparr>, clock_1030, [])"
  by (simp add: activity_on_def clock_1030_def parse_0307 parse_0308 strftime_0308
      weekly_activities_def minus_days_def max_ordinal_def in_window_def dt_le_def)

text \<open>
  Claim C1. (amended). When every stored date parses and the window lies inside the
  calendar, the selection is exactly the activities whose parsed date, midnight of its
  day, lies between \<open>start\<close> and \<open>end\<close>, both included, where \<open>end\<close> is \<open>now\<close> moved back
  by \<open>7 * weeks_ago\<close> days and \<open>start\<close> is seven days before it, both with the time of day
  of \<open>now\<close>. So a date is selected exactly when its day is after the day of \<open>start\<close> and
  not after the day of \<open>end\<close>, or is the day of \<open>start\<close> and \<open>now\<close> is exactly
  midnight; a date eight days before \<open>end\<close> is never selected.
\<close>

theorem weekly_summary_window:
  assumes w: "0 \<le> weeks_ago" and lo: "8 + 7 * weeks_ago \<le> dt_day now"
    and hi: "dt_day now \<le> max_ordinal"
    and p: "\<forall>a\<in>set (activities (tracker s)). \<exists>d. strptime (date a) = Inr d"
  shows "weekly_activities weeks_ago now (activities (tracker s)) =
      Inr (now\<lparr> dt_day := dt_day now - 7 * weeks_ago - 7 \<rparr>,
           now\<lparr> dt_day := dt_day now - 7 * weeks_ago \<rparr>,
           filter (date_in_window (now\<lparr> dt_day := dt_day now - 7 * weeks_ago - 7 \<rparr>)
                                  (now\<lparr> dt_day := dt_day now - 7 * weeks_ago \<rparr>))
                  (activities (tracker s)))
    \<and> (\<forall>r. fst (get_weekly_summary weeks_ago now s) = Inr r \<longrightarrow>
          activity_count r =
            length (filter (date_in_window (now\<lparr> dt_day := dt_day now - 7 * weeks_ago - 7 \<rparr>)
                                           (now\<lparr> dt_day := dt_day now - 7 * weeks_ago \<rparr>))
                           (activities (tracker s))))
    \<and> (\<forall>a d. strptime (date a) = Inr d \<longrightarrow>
          (date_in_window (now\<lparr> dt_day := dt_day now - 7 * weeks_ago - 7 \<rparr>)
                          (now\<lparr> dt_day := dt_day now - 7 * weeks_ago \<rparr>) a
           \<longleftrightarrow> (dt_day now - 7 * weeks_ago - 7 < dt_day d \<and> dt_day d \<le> dt_day now - 7 * weeks_ago)
                \<or> (dt_day d = dt_day now - 7 * weeks_ago - 7 \<and> dt_us now = 0)))"
proof -
  let ?e = "now\<lparr> dt_day := dt_day now - 7 * weeks_ago \<rparr>"
  let ?s = "now\<lparr> dt_day := dt_day now - 7 * weeks_ago - 7 \<rparr>"
  have 1: "weekly_activities weeks_ago now (activities (tracker s)) =
      Inr (?s, ?e, filter (date_in_window ?s ?e) (activities (tracker s)))"
    using w lo hi p by (rule weekly_activities_parsed)
  have 2: "\<forall>r. fst (get_weekly_summary weeks_ago now s) = Inr r \<longrightarrow>
          activity_count r = length (filter (date_in_window ?s ?e) (activities (tracker s)))"
    by (auto simp: get_weekly_summary_def 1 split: sum.splits)
  have 3: "\<forall>a d. strptime (date a) = Inr d \<longrightarrow>
          (date_in_window ?s ?e a
           \<longleftrightarrow> (dt_day now - 7 * weeks_ago - 7 < dt_day d \<and> dt_day d \<le> dt_day now - 7 * weeks_ago)
                \<or> (dt_day d = dt_day now - 7 * weeks_ago - 7 \<and> dt_us now = 0))"
  proof (intro allI impI)
    fix a :: FitnessActivity and d
    assume h: "strptime (date a) = Inr d"
    show "date_in_window ?s ?e a
           \<longleftrightarrow> (dt_day now - 7 * weeks_ago - 7 < dt_day d \<and> dt_day d \<le> dt_day now - 7 * weeks_ago)
                \<or> (dt_day d = dt_day now - 7 * weeks_ago - 7 \<and> dt_us now = 0)"
      using date_in_window_days [OF h, of ?s ?e] by auto
  qed
  from 1 2 3 show ?thesis by blast
qed

theorem weekly_summary_window_witness:
  "0 \<le> (0::int) \<and> 8 + 7 * 0 \<le> dt_day clock_1030 \<and> dt_day clock_1030 \<le> max_ordinal
   \<and> weekly_activities 0 clock_1030
        [activity_on ''Running'' ''2024-03-07'', activity_on ''Running'' ''2024-03-08'',
         activity_on ''Running'' ''2024-03-09'', activity_on ''Running'' ''2024-03-15'']
       = Inr (\<lparr> dt_day = 738953, dt_us = 37800000000 \<rparr>, clock_1030,
              [activity_on ''Running'' ''2024-03-09'', activity_on ''Running'' ''2024-03-15''])
   \<and> weekly_activities 0 clock_midnight
        [activity_on ''Running'' ''2024-03-07'', activity_on ''Running'' ''2024-03-08'',
         activity_on ''Running'' ''2024-03-09'', activity_on ''Running'' ''2024-03-15'']
       = Inr (\<lparr> dt_day = 738953, dt_us = 0 \<rparr>, clock_midnight,
              [activity_on ''Running'' ''2024-03-08'', activity_on ''Running'' ''2024-03-09'',
               activity_on ''Running'' ''2024-03-15''])"
proof -
  let ?xs = "[activity_on ''Running'' ''2024-03-07'', activity_on ''Running'' ''2024-03-08'',
         activity_on ''Running'' ''2024-03-09'', activity_on ''Running'' ''2024-03-15'']"
  have p: "\<forall>a\<in>set (activities (tracker (store_of ?xs))). \<exists>d. strptime (date a) = Inr d"
    by (simp add: store_of_def activity_on_def parse_0307 parse_0308 parse_0309 parse_0315)
  have a: "0 \<le> (0::int)" by simp
  have b: "8 + 7 * 0 \<le> dt_day clock_1030" by (simp add: clock_1030_def)
  have c: "dt_day clock_1030 \<le> max_ordinal" by (simp add: clock_1030_def max_ordinal_def)
  have b': "8 + 7 * 0 \<le> dt_day clock_midnight" by (simp add: clock_midnight_def)
  have c': "dt_day clock_midnight \<le> max_ordinal" by (simp add: clock_midnight_def max_ordinal_def)
  have w1: "weekly_activities 0 clock_1030 ?xs
       = Inr (\<lparr> dt_day = 738953, dt_us = 37800000000 \<rparr>, clock_1030,
              [activity_on ''Running'' ''2024-03-09'', activity_on ''Running'' ''2024-03-15''])"
    using weekly_summary_window [OF a b c p]
    by (simp add: store_of_def activity_on_def clock_1030_def date_in_window_def dt_le_def
        parse_0307 parse_0308 parse_0309 parse_0315)
  have w2: "weekly_activities 0 clock_midnight ?xs
       = Inr (\<lparr> dt_day = 738953, dt_us = 0 \<rparr>, clock_midnight,
              [activity_on ''Running'' ''2024-03-08'', activity_on ''Running'' ''2024-03-09'',
               activity_on ''Running'' ''2024-03-15''])"
    using weekly_summary_window [OF a b' c' p]
    by (simp add: store_of_def activity_on_def clock_midnight_def date_in_window_def dt_le_def
        parse_0307 parse_0308 parse_0309 parse_0315)
  from a b c w1 w2 show ?thesis by blast
qed

end
